theory Spec2Isabelle
  imports Complex_Main "HOL-Library.Word"
begin

section \<open>JavaScript values used by the USSD service\<close>

subsection \<open>Strings\<close>

text \<open>
  A JavaScript string is a sequence of 16-bit code units. String literals of the source
  that are plain ASCII are written \<open>js ''...''\<close>.
\<close>

type_synonym jschar = "16 word"
type_synonym jsstring = "jschar list"

definition js :: "string \<Rightarrow> jsstring" where
  "js s = map (\<lambda>c. word_of_nat (of_char c)) s"

text \<open>
  \<open>WhiteSpace\<close> and \<open>LineTerminator\<close> of ECMAScript: the code units removed by
  \<open>String.prototype.trim\<close>, skipped by \<open>parseFloat\<close> and matched by the regular
  expression class \<open>\s\<close>.
\<close>

definition isWhiteSpace :: "jschar \<Rightarrow> bool" where
  "isWhiteSpace c \<longleftrightarrow>
     c = 0x0009 \<or> c = 0x000A \<or> c = 0x000B \<or> c = 0x000C \<or> c = 0x000D \<or> c = 0x0020 \<or>
     c = 0x00A0 \<or> c = 0x1680 \<or> (0x2000 \<le> c \<and> c \<le> 0x200A) \<or> c = 0x2028 \<or> c = 0x2029 \<or>
     c = 0x202F \<or> c = 0x205F \<or> c = 0x3000 \<or> c = 0xFEFF"

text \<open>The regular expression class \<open>\d\<close> (without the unicode flag): \<open>0\<close> to \<open>9\<close>.\<close>

definition isDigit :: "jschar \<Rightarrow> bool" where
  "isDigit c \<longleftrightarrow> 0x30 \<le> c \<and> c \<le> 0x39"

definition trim :: "jsstring \<Rightarrow> jsstring" where
  "trim s = rev (dropWhile isWhiteSpace (rev (dropWhile isWhiteSpace s)))"

definition startsWith :: "jsstring \<Rightarrow> jsstring \<Rightarrow> bool" where
  "startsWith s p \<longleftrightarrow> take (length p) s = p"

text \<open>
  \<open>text.split(',')\<close>: the pieces between the commas, in order; a string without a comma
  (the empty string too) gives one piece.
\<close>

fun split_comma :: "jsstring \<Rightarrow> jsstring list" where
  "split_comma [] = [[]]"
| "split_comma (c # cs) =
     (if c = 0x2C then [] # split_comma cs
      else (case split_comma cs of [] \<Rightarrow> [[c]] | p # ps \<Rightarrow> (c # p) # ps))"

subsection \<open>Numbers\<close>

text \<open>
  A JavaScript number is an IEEE 754 binary64 value. A finite one is represented by the
  rational it denotes (the two zeros are not told apart: they compare equal and no
  operation of the service separates them).
\<close>

datatype jsnum = NaN | PInf | NInf | Fin rat

definition isNaN :: "jsnum \<Rightarrow> bool" where
  "isNaN x \<longleftrightarrow> x = NaN"

text \<open>The comparisons \<open>x <= 0\<close> and \<open>x > 0\<close>: false on \<open>NaN\<close>.\<close>

fun le_zero :: "jsnum \<Rightarrow> bool" where
  "le_zero NaN = False"
| "le_zero PInf = False"
| "le_zero NInf = True"
| "le_zero (Fin r) = (r \<le> 0)"

fun gt_zero :: "jsnum \<Rightarrow> bool" where
  "gt_zero NaN = False"
| "gt_zero PInf = True"
| "gt_zero NInf = False"
| "gt_zero (Fin r) = (0 < r)"

definition pow2 :: "int \<Rightarrow> rat" where
  "pow2 e = (if 0 \<le> e then 2 ^ nat e else 1 / 2 ^ nat (- e))"

definition pow10 :: "int \<Rightarrow> rat" where
  "pow10 e = (if 0 \<le> e then 10 ^ nat e else 1 / 10 ^ nat (- e))"

text \<open>The number of binary digits of a positive integer.\<close>

function bitlen :: "int \<Rightarrow> int" where
  "bitlen n = (if n \<le> 0 then 0 else 1 + bitlen (n div 2))"
  by pat_completeness auto
termination
  by (relation "measure nat") auto

text \<open>For \<open>r > 0\<close>, the integer \<open>e\<close> with \<open>2 ^ e \<le> r < 2 ^ (e + 1)\<close>.\<close>

definition ilog2 :: "rat \<Rightarrow> int" where
  "ilog2 r =
     (let d = bitlen (fst (quotient_of r)) - bitlen (snd (quotient_of r))
      in if pow2 d \<le> r then d else d - 1)"

text \<open>Rounding a non-negative rational to an integer, ties to the even neighbour.\<close>

definition round_even :: "rat \<Rightarrow> int" where
  "round_even x =
     (let f = \<lfloor>x\<rfloor>; d = x - of_int f
      in if d < 1 / 2 then f else if 1 / 2 < d then f + 1 else if even f then f else f + 1)"

text \<open>
  The Number value for a mathematical value: round to the nearest binary64 value, ties to
  even. The spacing of binary64 values around \<open>a\<close> is \<open>2 ^ (e - 52)\<close>, where \<open>e\<close> is the
  exponent of \<open>a\<close>, not below \<open>-1022\<close> (subnormal range); a result of \<open>2 ^ 1024\<close> or more
  is an infinity.
\<close>

definition round64 :: "rat \<Rightarrow> jsnum" where
  "round64 r =
     (if r = 0 then Fin 0
      else
        let a = \<bar>r\<bar>;
            e = max (ilog2 a) (- 1022);
            ulp = pow2 (e - 52);
            v = of_int (round_even (a / ulp)) * ulp
        in if pow2 1024 \<le> v then (if r < 0 then NInf else PInf)
           else Fin (if r < 0 then - v else v))"

text \<open>The division \<open>x / n\<close> of a number by an array length \<open>n\<close>.\<close>

fun div_by_length :: "jsnum \<Rightarrow> nat \<Rightarrow> jsnum" where
  "div_by_length NaN n = NaN"
| "div_by_length PInf n = PInf"
| "div_by_length NInf n = NInf"
| "div_by_length (Fin r) n =
     (if n = 0 then (if r = 0 then NaN else if 0 < r then PInf else NInf)
      else round64 (r / of_nat n))"

subsection \<open>parseFloat\<close>

definition digit_value :: "jschar \<Rightarrow> int" where
  "digit_value c = uint c - 0x30"

definition digits_value :: "jsstring \<Rightarrow> int" where
  "digits_value ds = foldl (\<lambda>a c. 10 * a + digit_value c) 0 ds"

text \<open>
  \<open>ExponentPart\<close>: \<open>e\<close> or \<open>E\<close>, an optional sign and at least one digit. A rest that does
  not start with a complete exponent part contributes nothing to the literal.
\<close>

definition exponent_part :: "jsstring \<Rightarrow> int" where
  "exponent_part s =
     (case s of
        [] \<Rightarrow> 0
      | c # cs \<Rightarrow>
          if c = 0x65 \<or> c = 0x45 then
            (case cs of
               [] \<Rightarrow> 0
             | d # ds \<Rightarrow>
                 if d = 0x2D then - digits_value (takeWhile isDigit ds)
                 else if d = 0x2B then digits_value (takeWhile isDigit ds)
                 else digits_value (takeWhile isDigit cs))
          else 0)"

text \<open>
  \<open>StrUnsignedDecimalLiteral\<close>: \<open>Infinity\<close>, or digits with an optional fraction and an
  optional exponent part, at least one digit before or after the point. The longest such
  prefix is read; without one the result is \<open>NaN\<close>.
\<close>

definition unsigned_literal :: "bool \<Rightarrow> jsstring \<Rightarrow> jsnum" where
  "unsigned_literal neg u =
     (if startsWith u (js ''Infinity'') then (if neg then NInf else PInf)
      else
        let ip = takeWhile isDigit u;
            r1 = dropWhile isDigit u;
            has_point = (r1 \<noteq> [] \<and> hd r1 = 0x2E);
            fp = (if has_point then takeWhile isDigit (tl r1) else []);
            r2 = (if has_point then dropWhile isDigit (tl r1) else r1)
        in if ip = [] \<and> fp = [] then NaN
           else
             let m = of_int (digits_value (ip @ fp)) * pow10 (exponent_part r2 - int (length fp))
             in round64 (if neg then - m else m))"

definition parseFloat :: "jsstring \<Rightarrow> jsnum" where
  "parseFloat s =
     (let t = dropWhile isWhiteSpace s
      in case t of
           [] \<Rightarrow> NaN
         | c # cs \<Rightarrow>
             if c = 0x2D then unsigned_literal True cs
             else if c = 0x2B then unsigned_literal False cs
             else unsigned_literal False t)"

section \<open>Phone number utilities\<close>

text \<open>
  The pattern \<open>[67]\d{8}\<close> up to the end of the input: nine code units, the first
  \<open>6\<close> or \<open>7\<close>, the other eight decimal digits.
\<close>

definition local_number :: "jsstring \<Rightarrow> bool" where
  "local_number s \<longleftrightarrow>
     length s = 9 \<and> (hd s = 0x36 \<or> hd s = 0x37) \<and> list_all isDigit (tl s)"

text \<open>The regular expression \<open>/^(\+255|0)?[67]\d{8}$/\<close>, tested on the whole string.\<close>

definition phoneRegex :: "jsstring \<Rightarrow> bool" where
  "phoneRegex s \<longleftrightarrow>
     (startsWith s (js ''+255'') \<and> local_number (drop 4 s)) \<or>
     (startsWith s (js ''0'') \<and> local_number (drop 1 s)) \<or>
     local_number s"

text \<open>\<open>phone.replace(/[\s\-\(\)]/g, '')\<close>\<close>

definition cleanPhone :: "jsstring \<Rightarrow> jsstring" where
  "cleanPhone phone =
     filter (\<lambda>c. \<not> (isWhiteSpace c \<or> c = 0x2D \<or> c = 0x28 \<or> c = 0x29)) phone"

definition validatePhoneNumber :: "jsstring \<Rightarrow> bool" where
  "validatePhoneNumber phone = phoneRegex (cleanPhone phone)"

definition formatPhoneNumber :: "jsstring \<Rightarrow> jsstring" where
  "formatPhoneNumber phone =
     (let c = cleanPhone phone
      in if startsWith c (js ''0'') then js ''+255'' @ drop 1 c
         else if startsWith c (js ''+255'') then c
         else if startsWith c (js ''255'') then js ''+'' @ c
         else if local_number c then js ''+255'' @ c
         else c)"

text \<open>
  \<open>USSDService.isValidPhoneNumber\<close>: the same regular expression, on the string as it
  is (nothing is removed first).
\<close>

definition isValidPhoneNumber :: "jsstring \<Rightarrow> bool" where
  "isValidPhoneNumber phone = phoneRegex phone"

section \<open>The USSD service\<close>

subsection \<open>Data\<close>

text \<open>
  The fields of \<open>USSDRequest\<close>, \<open>USSDResponse\<close> and \<open>USSDState\<close>. Where two interfaces
  of the source share a field name, the response's fields carry the prefix \<open>resp_\<close> and
  the state's phone number is \<open>statePhoneNumber\<close>; the request's \<open>text\<close> is \<open>reqText\<close>.
  Optional fields (\<open>amount?\<close>, \<open>creatorName?\<close>, \<open>phoneNumber?\<close>) are options, \<open>None\<close>
  for \<open>undefined\<close>.
\<close>

record USSDRequest =
  sessionId :: jsstring
  serviceCode :: jsstring
  phoneNumber :: jsstring
  reqText :: jsstring

datatype status = CON | END

text \<open>
  A message is the sequence of the parts of the template literal that builds it: literal
  text (\<open>T\<close>), a character of the template outside ASCII, by its code point (\<open>U\<close>), an
  interpolated string (\<open>S\<close>), an interpolated integer (\<open>N\<close>) and a number printed by
  \<open>toFixed(2)\<close> (\<open>F2\<close>).
\<close>

datatype piece = T string | U nat | S jsstring | N int | F2 jsnum

type_synonym message = "piece list"

record USSDResponse =
  resp_sessionId :: jsstring
  resp_serviceCode :: jsstring
  message :: message
  status :: status

datatype step = Amount | Members | Confirm

record USSDState =
  step :: step
  amount :: "jsnum option"
  memberPhones :: "jsstring list"
  creatorName :: "jsstring option"
  statePhoneNumber :: "jsstring option"

text \<open>The module-level \<open>sessionStore\<close>, a \<open>Map<string, USSDState>\<close>.\<close>

type_synonym sessionStore = "jsstring \<rightharpoonup> USSDState"

text \<open>
  What can be thrown while a request is handled: a \<open>TypeError\<close> (a method called on
  \<open>undefined\<close>) and whatever \<open>billService.createBill\<close> rejects with.
\<close>

datatype error = TypeError | BillStoreError

text \<open>
  The bill service is outside the dialogue engine: \<open>createBill\<close> is a parameter of the
  engine, from the request handed to it to the created bill or the error it rejects with.
  The non-null assertions \<open>state.phoneNumber!\<close> and \<open>state.amount!\<close> check nothing at run
  time, so the request carries the options as they are.
\<close>

datatype CreateBillRequest =
  CreateBillRequest
    (creatorPhone: "jsstring option")
    (billCreatorName: jsstring)
    (billAmount: "jsnum option")
    (billMemberPhones: "jsstring list")

record Bill =
  bill_id :: int
  bill_amount :: jsstring
  bill_members :: "jsstring list"

type_synonym billService = "CreateBillRequest \<Rightarrow> error + Bill"

subsection \<open>Helpers\<close>

definition createResponse :: "jsstring \<Rightarrow> message \<Rightarrow> status \<Rightarrow> USSDResponse" where
  "createResponse sid msg st =
     \<lparr>resp_sessionId = sid, resp_serviceCode = js ''*123#'', message = msg, status = st\<rparr>"

definition extractNameFromPhone :: "jsstring \<Rightarrow> jsstring" where
  "extractNameFromPhone phone = js ''User''"

text \<open>\<open>state.creatorName || 'User'\<close>: \<open>undefined\<close> and the empty string are falsy.\<close>

definition name_or_User :: "jsstring option \<Rightarrow> jsstring" where
  "name_or_User n = (case n of None \<Rightarrow> js ''User'' | Some s \<Rightarrow> if s = [] then js ''User'' else s)"

text \<open>\<open>!text || text.trim() === ''\<close>\<close>

definition blank :: "jsstring \<Rightarrow> bool" where
  "blank t \<longleftrightarrow> t = [] \<or> trim t = []"

text \<open>\<open>phoneNumbers.join('\n')\<close>\<close>

fun join_lines :: "jsstring list \<Rightarrow> jsstring" where
  "join_lines [] = []"
| "join_lines [p] = p"
| "join_lines (p # ps) = p @ 0x0A # join_lines ps"

subsection \<open>The step handlers\<close>

text \<open>
  A handler takes the request, the session state read by the caller and the store, and
  gives back what it returns or throws together with the store it leaves behind.
\<close>

type_synonym outcome = "(error + USSDResponse) \<times> sessionStore"

definition handleAmountStep :: "USSDRequest \<Rightarrow> USSDState \<Rightarrow> sessionStore \<Rightarrow> outcome" where
  "handleAmountStep request state store =
     (if blank (reqText request) then
        let state' = state\<lparr>creatorName := Some (extractNameFromPhone (phoneNumber request)),
                            statePhoneNumber := Some (phoneNumber request)\<rparr>
        in (Inr (createResponse (sessionId request)
                   [T ''Welcome '', S (name_or_User (creatorName state')),
                    T ''!\<newline>\<newline>Enter the total bill amount:'']
                   CON),
            store(sessionId request \<mapsto> state'))
      else
        let amt = parseFloat (trim (reqText request))
        in if isNaN amt \<or> le_zero amt then
             (Inr (createResponse (sessionId request)
                     [T ''Invalid amount. Please enter a valid number greater than 0:'']
                     CON),
              store)
           else
             let state' = state\<lparr>amount := Some amt, step := Members\<rparr>
             in (Inr (createResponse (sessionId request)
                        [T ''Bill amount: '', F2 amt,
                         T '' TZS\<newline>\<newline>Enter phone numbers separated by commas (e.g., 0712345678,0756789012):'']
                        CON),
                 store(sessionId request \<mapsto> state')))"

text \<open>
  The members step stores the new state before it builds the summary;
  \<open>totalAmount.toFixed(2)\<close> throws a \<open>TypeError\<close> when the state has no amount.
\<close>

definition handleMembersStep :: "USSDRequest \<Rightarrow> USSDState \<Rightarrow> sessionStore \<Rightarrow> outcome" where
  "handleMembersStep request state store =
     (if blank (reqText request) then
        (Inr (createResponse (sessionId request)
                [T ''Please enter phone numbers separated by commas:'']
                CON),
         store)
      else
        let phoneNumbers = filter isValidPhoneNumber (map trim (split_comma (reqText request)))
        in if length phoneNumbers = 0 then
             (Inr (createResponse (sessionId request)
                     [T ''No valid phone numbers found. Please enter valid phone numbers separated by commas:'']
                     CON),
              store)
           else
             let state' = state\<lparr>memberPhones := phoneNumbers, step := Confirm\<rparr>;
                 store' = store(sessionId request \<mapsto> state')
             in case amount state' of
                  None \<Rightarrow> (Inl TypeError, store')
                | Some totalAmount \<Rightarrow>
                    let amountPerPerson = div_by_length totalAmount (length phoneNumbers)
                    in (Inr (createResponse (sessionId request)
                               [U 0x1F4CB, T '' Bill Summary:\<newline>'',
                                T ''Total Amount: '', F2 totalAmount, T '' TZS\<newline>'',
                                T ''Members: '', N (int (length phoneNumbers)), T ''\<newline>'',
                                T ''Amount per person: '', F2 amountPerPerson, T '' TZS\<newline>\<newline>'',
                                T ''Phone Numbers:\<newline>'', S (join_lines phoneNumbers), T ''\<newline>\<newline>'',
                                T ''Reply:\<newline>'',
                                T ''1 - Confirm and Create Bill\<newline>'',
                                T ''2 - Cancel'']
                               CON),
                        store'))"

text \<open>
  The confirmation step. A rejection of \<open>createBill\<close> is caught inside the handler: the
  failure message is returned and the store is left as it is.
\<close>

definition handleConfirmStep ::
  "billService \<Rightarrow> USSDRequest \<Rightarrow> USSDState \<Rightarrow> sessionStore \<Rightarrow> outcome" where
  "handleConfirmStep createBill request state store =
     (if reqText request = js ''1'' then
        (case createBill (CreateBillRequest (statePhoneNumber state)
                            (name_or_User (creatorName state)) (amount state) (memberPhones state)) of
           Inr bill \<Rightarrow>
             (Inr (createResponse (sessionId request)
                     [U 0x2705, T '' Bill created successfully!\<newline>\<newline>'',
                      T ''Bill ID: '', N (bill_id bill), T ''\<newline>'',
                      T ''Amount: '', S (bill_amount bill), T '' TZS\<newline>'',
                      T ''Members: '', N (int (length (bill_members bill))), T ''\<newline>\<newline>'',
                      T ''SMS notifications have been sent to all members.'']
                     END),
              store(sessionId request := None))
         | Inl e \<Rightarrow>
             (Inr (createResponse (sessionId request)
                     [U 0x274C, T '' Failed to create bill. Please try again later.'']
                     END),
              store))
      else if reqText request = js ''2'' then
        (Inr (createResponse (sessionId request)
                [U 0x274C, T '' Bill creation cancelled. Thank you for using Split-Bill!'']
                END),
         store(sessionId request := None))
      else
        (Inr (createResponse (sessionId request)
                [T ''Invalid option. Please reply with:\<newline>1 - Confirm and Create Bill\<newline>2 - Cancel'']
                CON),
         store))"

subsection \<open>processUSSDRequest\<close>

text \<open>\<open>sessionStore.get(sessionId) || { step: 'amount', memberPhones: [], phoneNumber }\<close>\<close>

definition initialState :: "USSDRequest \<Rightarrow> USSDState" where
  "initialState request =
     \<lparr>step = Amount, amount = None, memberPhones = [], creatorName = None,
      statePhoneNumber = Some (phoneNumber request)\<rparr>"

definition getState :: "sessionStore \<Rightarrow> USSDRequest \<Rightarrow> USSDState" where
  "getState store request =
     (case store (sessionId request) of Some state \<Rightarrow> state | None \<Rightarrow> initialState request)"

text \<open>The \<open>catch\<close> clause of \<open>processUSSDRequest\<close>, around a handler that has run.\<close>

definition catch_error :: "USSDRequest \<Rightarrow> outcome \<Rightarrow> outcome" where
  "catch_error request r =
     (case fst r of
        Inl e \<Rightarrow>
          (Inr (createResponse (sessionId request) [T ''An error occurred. Please try again.''] END),
           snd r)
      | Inr response \<Rightarrow> r)"

text \<open>
  The amount and members handlers run inside the \<open>try\<close> block. The confirmation handler is
  asynchronous and its promise is returned without \<open>await\<close>, so a rejection of that
  promise would not reach the \<open>catch\<close> clause: its outcome is passed on as it is. The
  \<open>default\<close> branch of the \<open>switch\<close> has no counterpart: \<open>step\<close> has three values.
\<close>

definition processUSSDRequest :: "billService \<Rightarrow> USSDRequest \<Rightarrow> sessionStore \<Rightarrow> outcome" where
  "processUSSDRequest createBill request store =
     (let state = getState store request
      in case step state of
           Amount \<Rightarrow> catch_error request (handleAmountStep request state store)
         | Members \<Rightarrow> catch_error request (handleMembersStep request state store)
         | Confirm \<Rightarrow> handleConfirmStep createBill request state store)"

definition getSessionInfo :: "sessionStore \<Rightarrow> jsstring \<Rightarrow> USSDState option" where
  "getSessionInfo store sid = store sid"

definition clearAllSessions :: "sessionStore \<Rightarrow> sessionStore" where
  "clearAllSessions store = Map.empty"

subsection \<open>The route\<close>

text \<open>
  A field of the posted body: absent, present with a value that is not a string, or a
  string. The schema wants non-empty strings for \<open>sessionId\<close>, \<open>serviceCode\<close> and
  \<open>phoneNumber\<close>, and a string or nothing (then \<open>''\<close>) for \<open>text\<close>; a body that fails it is
  answered with status 400, an error of the service with status 500, and the response of
  the service is sent as it is otherwise.
\<close>

datatype field = Absent | NotAString | Str jsstring

record body =
  body_sessionId :: field
  body_serviceCode :: field
  body_phoneNumber :: field
  body_text :: field

datatype reply = Sent USSDResponse | BadRequest | InternalServerError

fun required :: "field \<Rightarrow> jsstring option" where
  "required (Str s) = (if s = [] then None else Some s)"
| "required f = None"

fun optional_default :: "field \<Rightarrow> jsstring option" where
  "optional_default (Str s) = Some s"
| "optional_default Absent = Some []"
| "optional_default NotAString = None"

definition parseBody :: "body \<Rightarrow> USSDRequest option" where
  "parseBody b =
     (case (required (body_sessionId b), required (body_serviceCode b),
            required (body_phoneNumber b), optional_default (body_text b)) of
        (Some sid, Some sc, Some pn, Some t) \<Rightarrow>
          Some \<lparr>sessionId = sid, serviceCode = sc, phoneNumber = pn, reqText = t\<rparr>
      | _ \<Rightarrow> None)"

definition ussdRoute :: "billService \<Rightarrow> body \<Rightarrow> sessionStore \<Rightarrow> reply \<times> sessionStore" where
  "ussdRoute createBill b store =
     (case parseBody b of
        None \<Rightarrow> (BadRequest, store)
      | Some request \<Rightarrow>
          (case processUSSDRequest createBill request store of
             (Inr response, store') \<Rightarrow> (Sent response, store')
           | (Inl e, store') \<Rightarrow> (InternalServerError, store')))"

section \<open>Sequences of turns\<close>

text \<open>
  A turn is a request together with the behaviour of the bill service while it is handled
  (the same request may find the database up or down).
\<close>

type_synonym turn = "billService \<times> USSDRequest"

definition turn_store :: "turn \<Rightarrow> sessionStore \<Rightarrow> sessionStore" where
  "turn_store e store = snd (processUSSDRequest (fst e) (snd e) store)"

fun run :: "turn list \<Rightarrow> sessionStore \<Rightarrow> sessionStore" where
  "run [] store = store"
| "run (e # es) store = run es (turn_store e store)"

text \<open>The session \<open>sid\<close> is in the store after every turn of the sequence.\<close>

fun stays :: "jsstring \<Rightarrow> turn list \<Rightarrow> sessionStore \<Rightarrow> bool" where
  "stays sid [] store = True"
| "stays sid (e # es) store =
     (turn_store e store sid \<noteq> None \<and> stays sid es (turn_store e store))"

text \<open>The position of a step in the dialogue.\<close>

fun rank :: "step \<Rightarrow> nat" where
  "rank Amount = 0"
| "rank Members = 1"
| "rank Confirm = 2"

text \<open>
  The stores the service can be in: the module starts with an empty map, and the map is
  only changed by \<open>processUSSDRequest\<close> and \<open>clearAllSessions\<close>.
\<close>

inductive reachable :: "sessionStore \<Rightarrow> bool" where
  start: "reachable Map.empty"
| request: "reachable store \<Longrightarrow> reachable (snd (processUSSDRequest createBill request store))"
| clear: "reachable store \<Longrightarrow> reachable (clearAllSessions store)"

text \<open>
  What the members and confirmation handlers rely on when they write \<open>state.amount!\<close>
  and \<open>state.phoneNumber!\<close>: the phone number is there, and past the amount step the
  amount is there and above zero.
\<close>

definition complete_session :: "USSDState \<Rightarrow> bool" where
  "complete_session st \<longleftrightarrow>
     statePhoneNumber st \<noteq> None \<and>
     (step st \<noteq> Amount \<longrightarrow> (\<exists>a. amount st = Some a \<and> gt_zero a))"

section \<open>The specification's normalizer\<close>

text \<open>
  The specification describes one operation \<open>normalize\<close> that validates a phone number
  and gives its international form, and a members step that keeps the normalized forms of
  the entries that normalize. These two definitions follow the specification's words, for
  comparison with the service.
\<close>

definition spec_normalize :: "jsstring \<Rightarrow> jsstring option" where
  "spec_normalize raw = (if validatePhoneNumber raw then Some (formatPhoneNumber raw) else None)"

definition spec_memberPhones :: "jsstring \<Rightarrow> jsstring list" where
  "spec_memberPhones t = List.map_filter spec_normalize (split_comma t)"

section \<open>Sample inputs\<close>

definition failingBillService :: billService where
  "failingBillService request = Inl BillStoreError"

definition workingBillService :: billService where
  "workingBillService request =
     Inr \<lparr>bill_id = 1, bill_amount = js ''5000'', bill_members = billMemberPhones request\<rparr>"

definition sampleRequest :: "jsstring \<Rightarrow> USSDRequest" where
  "sampleRequest t =
     \<lparr>sessionId = js ''ATUid_1'', serviceCode = js ''*384#'',
      phoneNumber = js ''+255700000000'', reqText = t\<rparr>"

text \<open>The dialogue up to the confirmation prompt: dial, amount, one member.\<close>

definition sampleDialogue :: "turn list" where
  "sampleDialogue =
     [(workingBillService, sampleRequest []),
      (workingBillService, sampleRequest (js ''5000'')),
      (workingBillService, sampleRequest (js ''0712345678''))]"

definition sampleState :: "step \<Rightarrow> jsstring list \<Rightarrow> USSDState" where
  "sampleState s phones =
     \<lparr>step = s, amount = (if s = Amount then None else Some (Fin 5000)), memberPhones = phones,
      creatorName = Some (js ''User''), statePhoneNumber = Some (js ''+255700000000'')\<rparr>"

text \<open>The body of the first request of the sample dialogue.\<close>

definition sampleBody :: body where
  "sampleBody =
     \<lparr>body_sessionId = Str (js ''ATUid_1''), body_serviceCode = Str (js ''*384#''),
      body_phoneNumber = Str (js ''+255700000000''), body_text = Absent\<rparr>"

text \<open>
  A session at the members step without an amount. The service never stores such a state;
  it serves to exercise the \<open>catch\<close> clause.
\<close>

definition brokenState :: USSDState where
  "brokenState =
     \<lparr>step = Members, amount = None, memberPhones = [], creatorName = None,
      statePhoneNumber = None\<rparr>"

section \<open>Basic facts\<close>

lemma blank_iff: "blank t \<longleftrightarrow> trim t = []"
  by (auto simp: blank_def trim_def)

lemma parseFloat_Nil: "parseFloat [] = NaN"
  by (simp add: parseFloat_def)

lemma getState_Some: "store (sessionId request) = Some st \<Longrightarrow> getState store request = st"
  by (simp add: getState_def)

lemma getState_None: "store (sessionId request) = None \<Longrightarrow> getState store request = initialState request"
  by (simp add: getState_def)

lemma step_initialState: "step (initialState request) = Amount"
  by (simp add: initialState_def)

lemma not_le_zero_iff: "\<not> isNaN a \<and> \<not> le_zero a \<longleftrightarrow> gt_zero a"
  by (cases a) (auto simp: isNaN_def)

subsection \<open>Trailing white space does not change what parseFloat reads\<close>

lemma high_not_low:
  fixes c :: jschar
  assumes "0x2000 \<le> c" and "c \<le> 0x39"
  shows False
proof -
  from assms have "(0x2000 :: jschar) \<le> 0x39"
    by (rule order_trans)
  then show False by simp
qed

lemma ws_not_digit: "isWhiteSpace c \<Longrightarrow> \<not> isDigit c"
  by (auto simp: isWhiteSpace_def isDigit_def dest: high_not_low)

lemma ws_not_literal:
  assumes "isWhiteSpace c"
  shows "c \<noteq> 0x2E" "c \<noteq> 0x65" "c \<noteq> 0x45" "c \<noteq> 0x2D" "c \<noteq> 0x2B"
  using assms by (auto simp: isWhiteSpace_def)

lemma Infinity_no_ws: "c \<in> set (js ''Infinity'') \<Longrightarrow> \<not> isWhiteSpace c"
  by (auto simp: js_def isWhiteSpace_def)

lemma takeWhile_append_stop:
  assumes "\<forall>c\<in>set w. \<not> P c"
  shows "takeWhile P (x @ w) = takeWhile P x"
  using assms by (induction x) (auto simp: takeWhile_eq_Nil_iff)

lemma dropWhile_append_stop:
  assumes "\<forall>c\<in>set w. \<not> P c"
  shows "dropWhile P (x @ w) = dropWhile P x @ w"
proof -
  have "dropWhile P w = w"
    using assms by (cases w) auto
  then show ?thesis
    by (induction x) auto
qed

lemma startsWith_append_ws:
  assumes w: "\<forall>c\<in>set w. isWhiteSpace c" and p: "\<forall>c\<in>set p. \<not> isWhiteSpace c"
  shows "startsWith (x @ w) p = startsWith x p"
proof (cases "length p \<le> length x")
  case True
  then show ?thesis by (simp add: startsWith_def)
next
  case False
  then have lt: "length x < length p" by simp
  have "length (take (length p) x) < length p"
    using lt by simp
  then have a: "take (length p) x \<noteq> p"
    by auto
  have b: "take (length p) (x @ w) \<noteq> p"
  proof
    assume eq: "take (length p) (x @ w) = p"
    have "length (take (length p) (x @ w)) = length p"
      using eq by simp
    then have "length p \<le> length (x @ w)"
      by simp
    with lt have "w \<noteq> []" by auto
    have "p ! length x = take (length p) (x @ w) ! length x"
      using eq by simp
    also have "\<dots> = (x @ w) ! length x"
      using lt by (rule nth_take)
    also have "\<dots> = hd w"
      using \<open>w \<noteq> []\<close> by (simp add: nth_append hd_conv_nth)
    finally have "isWhiteSpace (p ! length x)"
      using w \<open>w \<noteq> []\<close> by simp
    moreover have "p ! length x \<in> set p"
      using lt by simp
    ultimately show False
      using p by blast
  qed
  from a b show ?thesis
    by (simp add: startsWith_def)
qed

lemma exponent_part_append_ws:
  assumes w: "\<forall>c\<in>set w. isWhiteSpace c"
  shows "exponent_part (y @ w) = exponent_part y"
proof -
  have nd: "\<forall>c\<in>set w. \<not> isDigit c"
    using w ws_not_digit by blast
  have tw: "\<And>x. takeWhile isDigit (x @ w) = takeWhile isDigit x"
    using nd by (rule takeWhile_append_stop)
  have w0: "exponent_part w = 0"
  proof (cases w)
    case Nil
    then show ?thesis by (simp add: exponent_part_def)
  next
    case (Cons c cs)
    then have "isWhiteSpace c" using w by simp
    then show ?thesis
      using Cons ws_not_literal [of c] by (simp add: exponent_part_def)
  qed
  show ?thesis
  proof (cases y)
    case Nil
    then show ?thesis using w0 by (simp add: exponent_part_def)
  next
    case (Cons c cs)
    note y = Cons
    show ?thesis
    proof (cases cs)
      case Nil
      have "exponent_part (c # w) = 0"
      proof (cases w)
        case Nil
        then show ?thesis by (simp add: exponent_part_def)
      next
        case (Cons d ds)
        then have d: "isWhiteSpace d" using w by simp
        then have "takeWhile isDigit (d # ds) = []"
          using ws_not_digit by simp
        then show ?thesis
          using Cons ws_not_literal [OF d] by (simp add: exponent_part_def digits_value_def)
      qed
      then show ?thesis
        using y Nil by (simp add: exponent_part_def)
    next
      case (Cons d ds)
      have "takeWhile isDigit (ds @ w) = takeWhile isDigit ds"
        and "takeWhile isDigit (d # ds @ w) = takeWhile isDigit (d # ds)"
        using tw [of ds] tw [of "d # ds"] by simp_all
      then show ?thesis
        using y Cons by (simp add: exponent_part_def)
    qed
  qed
qed

lemma unsigned_literal_unfold:
  "unsigned_literal neg u =
     (if startsWith u (js ''Infinity'') then (if neg then NInf else PInf)
      else if dropWhile isDigit u \<noteq> [] \<and> hd (dropWhile isDigit u) = 0x2E then
        (if takeWhile isDigit u = [] \<and> takeWhile isDigit (tl (dropWhile isDigit u)) = [] then NaN
         else round64 ((if neg then uminus else id)
                (of_int (digits_value (takeWhile isDigit u @ takeWhile isDigit (tl (dropWhile isDigit u)))) *
                 pow10 (exponent_part (dropWhile isDigit (tl (dropWhile isDigit u))) -
                        int (length (takeWhile isDigit (tl (dropWhile isDigit u))))))))
      else
        (if takeWhile isDigit u = [] then NaN
         else round64 ((if neg then uminus else id)
                (of_int (digits_value (takeWhile isDigit u)) * pow10 (exponent_part (dropWhile isDigit u))))))"
  by (simp add: unsigned_literal_def Let_def)

lemma unsigned_literal_append_ws:
  assumes w: "\<forall>c\<in>set w. isWhiteSpace c"
  shows "unsigned_literal neg (x @ w) = unsigned_literal neg x"
proof -
  have nd: "\<forall>c\<in>set w. \<not> isDigit c"
    using w ws_not_digit by blast
  have tw: "\<And>x. takeWhile isDigit (x @ w) = takeWhile isDigit x"
    using nd by (rule takeWhile_append_stop)
  have dw: "\<And>x. dropWhile isDigit (x @ w) = dropWhile isDigit x @ w"
    using nd by (rule dropWhile_append_stop)
  have ex: "\<And>y. exponent_part (y @ w) = exponent_part y"
    using w by (rule exponent_part_append_ws)
  have inf: "startsWith (x @ w) (js ''Infinity'') = startsWith x (js ''Infinity'')"
    using w Infinity_no_ws by (intro startsWith_append_ws) blast+
  show ?thesis
  proof (cases w)
    case Nil
    then show ?thesis by simp
  next
    case wc: (Cons d ds)
    then have "isWhiteSpace d" using w by simp
    then have w_point: "\<not> (w \<noteq> [] \<and> hd w = 0x2E)"
      using wc ws_not_literal(1) [of d] by simp
    show ?thesis
    proof (cases "dropWhile isDigit x")
      case Nil
      have a: "dropWhile isDigit (x @ w) = w"
        using dw [of x] Nil by simp
      have c: "exponent_part w = exponent_part []"
        using ex [of "[]"] by simp
      show ?thesis
        unfolding unsigned_literal_unfold [of neg "x @ w"] unsigned_literal_unfold [of neg x] inf tw a Nil
          if_not_P [OF w_point] c
        by simp
    next
      case (Cons c r)
      have a: "dropWhile isDigit (x @ w) = c # (r @ w)"
        using dw [of x] Cons by simp
      show ?thesis
        unfolding unsigned_literal_unfold [of neg "x @ w"] unsigned_literal_unfold [of neg x] inf tw a Cons
        using ex [of "c # r"] by (simp add: tw dw ex)
    qed
  qed
qed

lemma parseFloat_unfold:
  "parseFloat s =
     (case dropWhile isWhiteSpace s of
        [] \<Rightarrow> NaN
      | c # cs \<Rightarrow>
          if c = 0x2D then unsigned_literal True cs
          else if c = 0x2B then unsigned_literal False cs
          else unsigned_literal False (c # cs))"
proof (cases "dropWhile isWhiteSpace s")
  case Nil
  show ?thesis
    unfolding parseFloat_def Let_def Nil by simp
next
  case (Cons c cs)
  show ?thesis
    unfolding parseFloat_def Let_def Cons by simp
qed

lemma parseFloat_append_ws:
  assumes w: "\<forall>c\<in>set w. isWhiteSpace c"
  shows "parseFloat (p @ w) = parseFloat p"
proof (cases "dropWhile isWhiteSpace p")
  case Nil
  then have "\<forall>c\<in>set p. isWhiteSpace c"
    by (simp add: dropWhile_eq_Nil_conv)
  with w have "\<forall>c\<in>set (p @ w). isWhiteSpace c"
    by auto
  then have e: "dropWhile isWhiteSpace (p @ w) = []"
    by (simp only: dropWhile_eq_Nil_conv)
  show ?thesis
    unfolding parseFloat_unfold [of "p @ w"] parseFloat_unfold [of p] Nil e by simp
next
  case (Cons c cs)
  then have "\<not> (\<forall>c\<in>set p. isWhiteSpace c)"
    by (auto simp: dropWhile_eq_Nil_conv [symmetric])
  then obtain d where "d \<in> set p" and "\<not> isWhiteSpace d"
    by blast
  then have "dropWhile isWhiteSpace (p @ w) = dropWhile isWhiteSpace p @ w"
    by (rule dropWhile_append1)
  then have a: "dropWhile isWhiteSpace (p @ w) = c # (cs @ w)"
    using Cons by simp
  show ?thesis
    unfolding parseFloat_unfold [of "p @ w"] parseFloat_unfold [of p] a Cons
    using unsigned_literal_append_ws [OF w, of True cs] unsigned_literal_append_ws [OF w, of False cs]
      unsigned_literal_append_ws [OF w, of False "c # cs"]
    by simp
qed

lemma parseFloat_dropWhile: "parseFloat (dropWhile isWhiteSpace s) = parseFloat s"
  by (simp add: parseFloat_def)

lemma parseFloat_trim: "parseFloat (trim s) = parseFloat s"
proof -
  define t where "t = dropWhile isWhiteSpace s"
  define w where "w = rev (takeWhile isWhiteSpace (rev t))"
  have "trim s @ w = rev (takeWhile isWhiteSpace (rev t) @ dropWhile isWhiteSpace (rev t))"
    by (simp only: trim_def w_def t_def rev_append)
  also have "\<dots> = rev (rev t)"
    by (simp only: takeWhile_dropWhile_id)
  finally have t: "trim s @ w = t"
    by simp
  have "\<forall>c\<in>set w. isWhiteSpace c"
    by (auto simp: w_def dest: set_takeWhileD)
  then have "parseFloat (trim s @ w) = parseFloat (trim s)"
    by (rule parseFloat_append_ws)
  with t have "parseFloat (trim s) = parseFloat t"
    by simp
  then show ?thesis
    by (simp add: t_def parseFloat_dropWhile)
qed

subsection \<open>The outcomes of the handlers\<close>

lemma handleAmountStep_Inr: "\<exists>response. fst (handleAmountStep request state store) = Inr response"
  by (simp add: handleAmountStep_def Let_def)

lemma handleConfirmStep_Inr:
  "\<exists>response. fst (handleConfirmStep createBill request state store) = Inr response"
  by (simp add: handleConfirmStep_def split: sum.split)

lemma catch_error_Inr: "\<exists>response. fst (catch_error request r) = Inr response"
  by (cases "fst r") (simp_all add: catch_error_def)

lemma catch_error_snd: "snd (catch_error request r) = snd r"
  by (cases "fst r") (simp_all add: catch_error_def)

lemma catch_error_Inl:
  "fst r = Inl e \<Longrightarrow>
   catch_error request r =
     (Inr (createResponse (sessionId request) [T ''An error occurred. Please try again.''] END), snd r)"
  by (simp add: catch_error_def)

lemma catch_error_id: "fst r = Inr response \<Longrightarrow> catch_error request r = r"
  by (simp add: catch_error_def)

lemma processUSSDRequest_Inr:
  "\<exists>response. fst (processUSSDRequest createBill request store) = Inr response"
  by (cases "step (getState store request)")
     (simp_all add: processUSSDRequest_def catch_error_Inr handleConfirmStep_Inr)

lemma serviceCode_createResponse: "resp_serviceCode (createResponse sid msg st) = js ''*123#''"
  by (simp add: createResponse_def)

lemma handleAmountStep_serviceCode:
  "fst (handleAmountStep request state store) = Inr response \<Longrightarrow> resp_serviceCode response = js ''*123#''"
  by (auto simp: handleAmountStep_def Let_def serviceCode_createResponse split: if_splits)

lemma handleMembersStep_serviceCode:
  "fst (handleMembersStep request state store) = Inr response \<Longrightarrow> resp_serviceCode response = js ''*123#''"
  by (auto simp: handleMembersStep_def Let_def serviceCode_createResponse split: if_splits option.splits)

lemma handleConfirmStep_serviceCode:
  "fst (handleConfirmStep createBill request state store) = Inr response \<Longrightarrow> resp_serviceCode response = js ''*123#''"
  by (auto simp: handleConfirmStep_def serviceCode_createResponse split: if_splits sum.splits)

lemma catch_error_serviceCode:
  assumes "\<And>response. fst r = Inr response \<Longrightarrow> resp_serviceCode response = js ''*123#''"
    and "fst (catch_error request r) = Inr response"
  shows "resp_serviceCode response = js ''*123#''"
  using assms by (cases "fst r") (auto simp: catch_error_def serviceCode_createResponse)

lemma processUSSDRequest_serviceCode:
  assumes "fst (processUSSDRequest createBill request store) = Inr response"
  shows "resp_serviceCode response = js ''*123#''"
proof (cases "step (getState store request)")
  case Amount
  with assms show ?thesis
    by (auto simp: processUSSDRequest_def intro: catch_error_serviceCode handleAmountStep_serviceCode)
next
  case Members
  with assms show ?thesis
    by (auto simp: processUSSDRequest_def intro: catch_error_serviceCode handleMembersStep_serviceCode)
next
  case Confirm
  with assms show ?thesis
    by (auto simp: processUSSDRequest_def intro: handleConfirmStep_serviceCode)
qed

section \<open>The branches of the dialogue\<close>

subsection \<open>The amount step\<close>

lemma amount_step_invalid:
  assumes "step (getState store request) = Amount" and "\<not> blank (reqText request)"
    and "\<not> gt_zero (parseFloat (trim (reqText request)))"
  shows "processUSSDRequest createBill request store =
           (Inr (createResponse (sessionId request)
                   [T ''Invalid amount. Please enter a valid number greater than 0:''] CON),
            store)"
  using assms not_le_zero_iff [of "parseFloat (trim (reqText request))"]
  by (simp add: processUSSDRequest_def handleAmountStep_def catch_error_def)

lemma amount_step_valid:
  assumes "step (getState store request) = Amount" and "gt_zero (parseFloat (trim (reqText request)))"
  shows "processUSSDRequest createBill request store =
           (Inr (createResponse (sessionId request)
                   [T ''Bill amount: '', F2 (parseFloat (trim (reqText request))),
                    T '' TZS\<newline>\<newline>Enter phone numbers separated by commas (e.g., 0712345678,0756789012):'']
                   CON),
            store(sessionId request \<mapsto>
              (getState store request)\<lparr>amount := Some (parseFloat (trim (reqText request))), step := Members\<rparr>))"
proof -
  have "\<not> blank (reqText request)"
    using assms(2) by (auto simp: blank_iff parseFloat_Nil)
  then show ?thesis
    using assms not_le_zero_iff [of "parseFloat (trim (reqText request))"]
    by (simp add: processUSSDRequest_def handleAmountStep_def catch_error_def Let_def)
qed

lemma amount_step_welcome:
  assumes "step (getState store request) = Amount" and "blank (reqText request)"
  shows "processUSSDRequest createBill request store =
           (Inr (createResponse (sessionId request)
                   [T ''Welcome '', S (js ''User''), T ''!\<newline>\<newline>Enter the total bill amount:''] CON),
            store(sessionId request \<mapsto>
              (getState store request)\<lparr>creatorName := Some (js ''User''),
                                        statePhoneNumber := Some (phoneNumber request)\<rparr>))"
  using assms
  by (simp add: processUSSDRequest_def handleAmountStep_def catch_error_def Let_def
      extractNameFromPhone_def name_or_User_def js_def)

subsection \<open>The members step\<close>

lemma members_step_blank:
  assumes "step (getState store request) = Members" and "blank (reqText request)"
  shows "processUSSDRequest createBill request store =
           (Inr (createResponse (sessionId request)
                   [T ''Please enter phone numbers separated by commas:''] CON),
            store)"
  using assms by (simp add: processUSSDRequest_def handleMembersStep_def catch_error_def)

lemma members_step_none_valid:
  assumes "step (getState store request) = Members" and "\<not> blank (reqText request)"
    and "filter isValidPhoneNumber (map trim (split_comma (reqText request))) = []"
  shows "processUSSDRequest createBill request store =
           (Inr (createResponse (sessionId request)
                   [T ''No valid phone numbers found. Please enter valid phone numbers separated by commas:'']
                   CON),
            store)"
  using assms by (simp add: processUSSDRequest_def handleMembersStep_def catch_error_def)

lemma members_step_store:
  assumes "step (getState store request) = Members" and "\<not> blank (reqText request)"
    and "filter isValidPhoneNumber (map trim (split_comma (reqText request))) \<noteq> []"
  shows "snd (processUSSDRequest createBill request store) =
           store(sessionId request \<mapsto>
             (getState store request)
               \<lparr>memberPhones := filter isValidPhoneNumber (map trim (split_comma (reqText request))),
                step := Confirm\<rparr>)"
  using assms
  by (simp add: processUSSDRequest_def handleMembersStep_def catch_error_snd Let_def
      split: option.split)

lemma members_step_throw:
  assumes "step (getState store request) = Members" and "\<not> blank (reqText request)"
    and "filter isValidPhoneNumber (map trim (split_comma (reqText request))) \<noteq> []"
    and "amount (getState store request) = None"
  shows "fst (handleMembersStep request (getState store request) store) = Inl TypeError"
    and "fst (processUSSDRequest createBill request store) =
           Inr (createResponse (sessionId request) [T ''An error occurred. Please try again.''] END)"
  using assms
  by (simp_all add: processUSSDRequest_def handleMembersStep_def catch_error_def Let_def)

lemma members_step_status:
  assumes "step (getState store request) = Members" and "amount (getState store request) = Some a"
    and "fst (processUSSDRequest createBill request store) = Inr response"
  shows "status response = CON"
  using assms
  by (auto simp: processUSSDRequest_def handleMembersStep_def catch_error_def Let_def createResponse_def
      split: if_splits)

subsection \<open>The confirmation step\<close>

lemma js_1_neq_2: "js ''2'' \<noteq> js ''1''"
  by code_simp

lemma confirm_created:
  assumes "step (getState store request) = Confirm" and "reqText request = js ''1''"
    and "createBill (CreateBillRequest (statePhoneNumber (getState store request))
           (name_or_User (creatorName (getState store request))) (amount (getState store request))
           (memberPhones (getState store request))) = Inr bill"
  shows "processUSSDRequest createBill request store =
           (Inr (createResponse (sessionId request)
                   [U 0x2705, T '' Bill created successfully!\<newline>\<newline>'',
                    T ''Bill ID: '', N (bill_id bill), T ''\<newline>'',
                    T ''Amount: '', S (bill_amount bill), T '' TZS\<newline>'',
                    T ''Members: '', N (int (length (bill_members bill))), T ''\<newline>\<newline>'',
                    T ''SMS notifications have been sent to all members.'']
                   END),
            store(sessionId request := None))"
  using assms by (simp add: processUSSDRequest_def handleConfirmStep_def)

lemma confirm_failed:
  assumes "step (getState store request) = Confirm" and "reqText request = js ''1''"
    and "createBill (CreateBillRequest (statePhoneNumber (getState store request))
           (name_or_User (creatorName (getState store request))) (amount (getState store request))
           (memberPhones (getState store request))) = Inl e"
  shows "processUSSDRequest createBill request store =
           (Inr (createResponse (sessionId request)
                   [U 0x274C, T '' Failed to create bill. Please try again later.''] END),
            store)"
  using assms by (simp add: processUSSDRequest_def handleConfirmStep_def)

lemma confirm_cancel:
  assumes "step (getState store request) = Confirm" and "reqText request = js ''2''"
  shows "processUSSDRequest createBill request store =
           (Inr (createResponse (sessionId request)
                   [U 0x274C, T '' Bill creation cancelled. Thank you for using Split-Bill!''] END),
            store(sessionId request := None))"
  using assms js_1_neq_2 by (simp add: processUSSDRequest_def handleConfirmStep_def)

lemma confirm_other:
  assumes "step (getState store request) = Confirm" and "reqText request \<noteq> js ''1''"
    and "reqText request \<noteq> js ''2''"
  shows "processUSSDRequest createBill request store =
           (Inr (createResponse (sessionId request)
                   [T ''Invalid option. Please reply with:\<newline>1 - Confirm and Create Bill\<newline>2 - Cancel'']
                   CON),
            store)"
  using assms by (simp add: processUSSDRequest_def handleConfirmStep_def)

subsection \<open>The sample dialogue\<close>

lemma blank_Nil: "blank []"
  by (simp add: blank_def)

lemma sampleRequest_simps:
  "sessionId (sampleRequest t) = js ''ATUid_1''"
  "serviceCode (sampleRequest t) = js ''*384#''"
  "phoneNumber (sampleRequest t) = js ''+255700000000''"
  "reqText (sampleRequest t) = t"
  by (simp_all add: sampleRequest_def)

lemma parse_5000: "parseFloat (trim (js ''5000'')) = Fin 5000"
  by code_simp

lemma sample_turn1:
  "turn_store (createBill, sampleRequest []) Map.empty = [js ''ATUid_1'' \<mapsto> sampleState Amount []]"
  using amount_step_welcome [of Map.empty "sampleRequest []" createBill]
  by (simp add: turn_store_def sampleRequest_simps blank_Nil getState_def initialState_def sampleState_def)

lemma sample_turn2:
  "turn_store (createBill, sampleRequest (js ''5000'')) [js ''ATUid_1'' \<mapsto> sampleState Amount []] =
     [js ''ATUid_1'' \<mapsto> sampleState Members []]"
  using amount_step_valid [of "[js ''ATUid_1'' \<mapsto> sampleState Amount []]" "sampleRequest (js ''5000'')" createBill]
  by (simp add: turn_store_def sampleRequest_simps parse_5000 getState_def sampleState_def)

lemma not_blank_member: "\<not> blank (js ''0712345678'')"
  by code_simp

lemma valid_member:
  "filter isValidPhoneNumber (map trim (split_comma (js ''0712345678''))) = [js ''0712345678'']"
  by code_simp

lemma sample_turn3:
  "turn_store (createBill, sampleRequest (js ''0712345678'')) [js ''ATUid_1'' \<mapsto> sampleState Members []] =
     [js ''ATUid_1'' \<mapsto> sampleState Confirm [js ''0712345678'']]"
  using members_step_store [of "[js ''ATUid_1'' \<mapsto> sampleState Members []]"
      "sampleRequest (js ''0712345678'')" createBill]
  by (simp add: turn_store_def sampleRequest_simps not_blank_member valid_member getState_def sampleState_def)

lemma sample_store1: "run (take 1 sampleDialogue) Map.empty = [js ''ATUid_1'' \<mapsto> sampleState Amount []]"
  by (simp add: sampleDialogue_def sample_turn1)

lemma sample_store2: "run (take 2 sampleDialogue) Map.empty = [js ''ATUid_1'' \<mapsto> sampleState Members []]"
  by (simp add: sampleDialogue_def sample_turn1 sample_turn2)

lemma sample_store3:
  "run sampleDialogue Map.empty = [js ''ATUid_1'' \<mapsto> sampleState Confirm [js ''0712345678'']]"
  by (simp add: sampleDialogue_def sample_turn1 sample_turn2 sample_turn3)

subsection \<open>The store after a request\<close>

lemma store_cases:
  "snd (processUSSDRequest createBill request store) = store \<or>
   step (getState store request) = Confirm \<and>
     snd (processUSSDRequest createBill request store) = store(sessionId request := None) \<or>
   step (getState store request) = Amount \<and>
     snd (processUSSDRequest createBill request store) =
       store(sessionId request \<mapsto>
         (getState store request)\<lparr>creatorName := Some (js ''User''),
                                   statePhoneNumber := Some (phoneNumber request)\<rparr>) \<or>
   step (getState store request) = Amount \<and>
     (\<exists>a. gt_zero a \<and>
        snd (processUSSDRequest createBill request store) =
          store(sessionId request \<mapsto> (getState store request)\<lparr>amount := Some a, step := Members\<rparr>)) \<or>
   step (getState store request) = Members \<and>
     (\<exists>ps. ps \<noteq> [] \<and>
        snd (processUSSDRequest createBill request store) =
          store(sessionId request \<mapsto> (getState store request)\<lparr>memberPhones := ps, step := Confirm\<rparr>))"
proof (cases "step (getState store request)")
  case Amount
  show ?thesis
  proof (cases "blank (reqText request)")
    case True
    from amount_step_welcome [OF Amount True, of createBill] Amount show ?thesis by simp
  next
    case False
    show ?thesis
    proof (cases "gt_zero (parseFloat (trim (reqText request)))")
      case True
      from amount_step_valid [OF Amount True, of createBill] Amount True show ?thesis
        by auto
    next
      case nv: False
      from amount_step_invalid [OF Amount False nv, of createBill] show ?thesis by simp
    qed
  qed
next
  case Members
  show ?thesis
  proof (cases "blank (reqText request)")
    case True
    from members_step_blank [OF Members True, of createBill] show ?thesis by simp
  next
    case False
    show ?thesis
    proof (cases "filter isValidPhoneNumber (map trim (split_comma (reqText request))) = []")
      case True
      from members_step_none_valid [OF Members False True, of createBill] show ?thesis by simp
    next
      case ne: False
      from members_step_store [OF Members False ne, of createBill] Members ne show ?thesis
        by auto
    qed
  qed
next
  case Confirm
  show ?thesis
  proof (cases "reqText request = js ''1''")
    case True
    show ?thesis
    proof (cases "createBill (CreateBillRequest (statePhoneNumber (getState store request))
           (name_or_User (creatorName (getState store request))) (amount (getState store request))
           (memberPhones (getState store request)))")
      case (Inl e)
      from confirm_failed [of store request createBill e] Confirm True Inl show ?thesis by simp
    next
      case (Inr bill)
      from confirm_created [of store request createBill bill] Confirm True Inr show ?thesis by simp
    qed
  next
    case n1: False
    show ?thesis
    proof (cases "reqText request = js ''2''")
      case True
      from confirm_cancel [OF Confirm True, of createBill] Confirm show ?thesis by simp
    next
      case False
      from confirm_other [OF Confirm n1 False, of createBill] show ?thesis by simp
    qed
  qed
qed

lemma store_other:
  assumes "sid \<noteq> sessionId request"
  shows "snd (processUSSDRequest createBill request store) sid = store sid"
  using store_cases [of createBill request store] assms by auto

lemma turn_session:
  assumes "store sid = Some st"
  shows "case turn_store e store sid of
           None \<Rightarrow> step st = Confirm
         | Some st' \<Rightarrow>
             rank (step st) \<le> rank (step st') \<and> rank (step st') \<le> Suc (rank (step st)) \<and>
             (step st = Confirm \<longrightarrow> st' = st)"
proof (cases "sid = sessionId (snd e)")
  case False
  then show ?thesis
    using assms by (simp add: turn_store_def store_other)
next
  case True
  then have g: "getState store (snd e) = st"
    using assms by (simp add: getState_def)
  show ?thesis
    using store_cases [of "fst e" "snd e" store] assms True
    unfolding g turn_store_def
    by (elim disjE conjE exE) (cases "step st"; simp)+
qed

subsection \<open>Responses that end the dialogue\<close>

lemma amount_step_status:
  assumes "step (getState store request) = Amount"
    and "fst (processUSSDRequest createBill request store) = Inr response"
  shows "status response = CON"
proof (cases "blank (reqText request)")
  case True
  from amount_step_welcome [OF assms(1) True, of createBill] assms(2) show ?thesis
    by (auto simp: createResponse_def)
next
  case False
  show ?thesis
  proof (cases "gt_zero (parseFloat (trim (reqText request)))")
    case True
    from amount_step_valid [OF assms(1) True, of createBill] assms(2) show ?thesis
      by (auto simp: createResponse_def)
  next
    case nv: False
    from amount_step_invalid [OF assms(1) False nv, of createBill] assms(2) show ?thesis
      by (auto simp: createResponse_def)
  qed
qed

lemma members_step_end:
  assumes "step (getState store request) = Members"
    and "fst (processUSSDRequest createBill request store) = Inr response"
    and "status response = END"
  shows "message response = [T ''An error occurred. Please try again.'']"
proof (cases "amount (getState store request)")
  case None
  show ?thesis
  proof (cases "blank (reqText request)")
    case True
    from members_step_blank [OF assms(1) True, of createBill] assms(2,3) show ?thesis
      by (auto simp: createResponse_def)
  next
    case False
    show ?thesis
    proof (cases "filter isValidPhoneNumber (map trim (split_comma (reqText request))) = []")
      case True
      from members_step_none_valid [OF assms(1) False True, of createBill] assms(2,3) show ?thesis
        by (auto simp: createResponse_def)
    next
      case ne: False
      from members_step_throw(2) [OF assms(1) False ne None, of createBill] assms(2) show ?thesis
        by (auto simp: createResponse_def)
    qed
  qed
next
  case (Some a)
  from members_step_status [OF assms(1) Some assms(2)] assms(3) show ?thesis
    by simp
qed

lemma end_response_cases:
  assumes "processUSSDRequest createBill request store = (Inr response, store')"
    and "status response = END"
  shows "store' (sessionId request) = None \<or>
         store' = store \<and>
           message response = [U 0x274C, T '' Failed to create bill. Please try again later.''] \<or>
         message response = [T ''An error occurred. Please try again.'']"
proof (cases "step (getState store request)")
  case Amount
  from amount_step_status [OF Amount, of createBill response] assms show ?thesis
    by simp
next
  case Members
  from members_step_end [OF Members, of createBill response] assms show ?thesis
    by simp
next
  case Confirm
  show ?thesis
  proof (cases "reqText request = js ''1''")
    case True
    show ?thesis
    proof (cases "createBill (CreateBillRequest (statePhoneNumber (getState store request))
           (name_or_User (creatorName (getState store request))) (amount (getState store request))
           (memberPhones (getState store request)))")
      case (Inl e)
      from confirm_failed [of store request createBill e] Confirm True Inl assms show ?thesis
        by (auto simp: createResponse_def)
    next
      case (Inr bill)
      from confirm_created [of store request createBill bill] Confirm True Inr assms show ?thesis
        by auto
    qed
  next
    case n1: False
    show ?thesis
    proof (cases "reqText request = js ''2''")
      case True
      from confirm_cancel [OF Confirm True, of createBill] assms show ?thesis by auto
    next
      case False
      from confirm_other [OF Confirm n1 False, of createBill] assms show ?thesis
        by (auto simp: createResponse_def)
    qed
  qed
qed

section \<open>The claims\<close>

subsection \<open>Sessions after a response with status END\<close>

lemma failing_createBill: "failingBillService r = Inl BillStoreError"
  by (simp add: failingBillService_def)

text \<open>
  Claim C1. The claim wants the session gone whenever a response has status \<open>END\<close>, also
  when the bill service fails at the confirmation step. The handler deletes the session
  after a created bill and after a cancellation, but not in the \<open>catch\<close> clause around
  \<open>createBill\<close>: after the sample dialogue, the input \<open>1\<close> with a failing bill service
  is answered with the failure message and status \<open>END\<close>, and the store still holds the
  session at the confirmation step. (Lemma \<open>end_response_cases\<close>: apart from this
  branch and the \<open>catch\<close> clause of \<open>processUSSDRequest\<close>, a response with status
  \<open>END\<close> does leave the store without the session.)
\<close>

theorem failed_confirmation_keeps_session:
  "processUSSDRequest failingBillService (sampleRequest (js ''1'')) (run sampleDialogue Map.empty) =
     (Inr (createResponse (js ''ATUid_1'')
             [U 0x274C, T '' Failed to create bill. Please try again later.''] END),
      [js ''ATUid_1'' \<mapsto> sampleState Confirm [js ''0712345678'']])"
  using confirm_failed [of "run sampleDialogue Map.empty" "sampleRequest (js ''1'')"
      failingBillService BillStoreError]
  by (simp add: sample_store3 sampleRequest_simps getState_def sampleState_def failing_createBill)

subsection \<open>The service code of a response\<close>

lemma parse_sampleBody: "parseBody sampleBody = Some (sampleRequest [])"
  by (simp add: parseBody_def sampleBody_def sampleRequest_def js_def)

lemma route_sampleBody:
  "ussdRoute workingBillService sampleBody Map.empty =
     (Sent (createResponse (js ''ATUid_1'')
              [T ''Welcome '', S (js ''User''), T ''!\<newline>\<newline>Enter the total bill amount:''] CON),
      [js ''ATUid_1'' \<mapsto> sampleState Amount []])"
  using amount_step_welcome [of Map.empty "sampleRequest []" workingBillService]
  by (simp add: ussdRoute_def parse_sampleBody sampleRequest_simps blank_Nil getState_def initialState_def
      sampleState_def)

text \<open>
  Claim C2, as stated, fails: \<open>createResponse\<close> writes the constant \<open>*123#\<close> and never
  looks at the request. The first turn of the sample dialogue, dialled under \<open>*384#\<close>, is
  answered with another service code than its own.
\<close>

theorem serviceCode_not_echoed:
  "map_sum id resp_serviceCode (fst (processUSSDRequest workingBillService (sampleRequest []) Map.empty))
     \<noteq> Inr (serviceCode (sampleRequest []))"
proof -
  have "js ''*123#'' \<noteq> js ''*384#''" by code_simp
  then show ?thesis
    using amount_step_welcome [of Map.empty "sampleRequest []" workingBillService]
    by (simp add: sampleRequest_simps blank_Nil getState_def step_initialState createResponse_def)
qed

text \<open>
  Claim C2, amended. Every response of the service carries the service code \<open>*123#\<close>,
  whatever service code the request carried; so does every response the route sends.
\<close>

theorem serviceCode_fixed:
  "(\<exists>response. fst (processUSSDRequest createBill request store) = Inr response \<and>
      resp_serviceCode response = js ''*123#'') \<and>
   (\<forall>response store'. ussdRoute createBill b store = (Sent response, store') \<longrightarrow>
      resp_serviceCode response = js ''*123#'')"
proof
  show "\<exists>response. fst (processUSSDRequest createBill request store) = Inr response \<and>
      resp_serviceCode response = js ''*123#''"
    using processUSSDRequest_Inr [of createBill request store] processUSSDRequest_serviceCode
    by blast
  show "\<forall>response store'. ussdRoute createBill b store = (Sent response, store') \<longrightarrow>
      resp_serviceCode response = js ''*123#''"
  proof (intro allI impI)
    fix response store'
    assume r: "ussdRoute createBill b store = (Sent response, store')"
    then obtain rq where "processUSSDRequest createBill rq store = (Inr response, store')"
      by (auto simp: ussdRoute_def split: option.splits prod.splits sum.splits)
    then have "fst (processUSSDRequest createBill rq store) = Inr response"
      by simp
    then show "resp_serviceCode response = js ''*123#''"
      by (rule processUSSDRequest_serviceCode)
  qed
qed

theorem serviceCode_fixed_witness:
  "ussdRoute workingBillService sampleBody Map.empty =
     (Sent (createResponse (js ''ATUid_1'')
              [T ''Welcome '', S (js ''User''), T ''!\<newline>\<newline>Enter the total bill amount:''] CON),
      [js ''ATUid_1'' \<mapsto> sampleState Amount []]) \<and>
   resp_serviceCode (createResponse (js ''ATUid_1'')
              [T ''Welcome '', S (js ''User''), T ''!\<newline>\<newline>Enter the total bill amount:''] CON) = js ''*123#''"
  using route_sampleBody serviceCode_fixed [of workingBillService "sampleRequest []" Map.empty sampleBody]
  by simp

subsection \<open>The stored member phones\<close>

lemma spec_two_members:
  "spec_memberPhones (js ''0712345678,0712-345-678'') = [js ''+255712345678'', js ''+255712345678'']"
  by code_simp

lemma spec_normalize_plain: "spec_normalize (js ''0712345678'') = Some (js ''+255712345678'')"
  by code_simp

lemma spec_normalize_hyphens: "spec_normalize (js ''0712-345-678'') = Some (js ''+255712345678'')"
  by code_simp

lemma hyphens_not_valid: "\<not> isValidPhoneNumber (trim (js ''0712-345-678''))"
  by code_simp

lemma not_blank_two_members: "\<not> blank (js ''0712345678,0712-345-678'')"
  by code_simp

lemma valid_of_two_members:
  "filter isValidPhoneNumber (map trim (split_comma (js ''0712345678,0712-345-678''))) = [js ''0712345678'']"
  by code_simp

lemma not_blank_mixed: "\<not> blank (js ''0712345678, notanumber,0712-345-678, +255698765432 '')"
  by code_simp

lemma valid_of_mixed:
  "filter isValidPhoneNumber (map trim (split_comma (js ''0712345678, notanumber,0712-345-678, +255698765432 ''))) =
     [js ''0712345678'', js ''+255698765432'']"
  by code_simp

lemma member_neq: "js ''0712345678'' \<noteq> js ''+255712345678''"
  by code_simp

text \<open>
  Claim C3, as stated, fails, in two ways. The members step never calls
  \<open>formatPhoneNumber\<close>: an entry that is kept is stored as it was typed, \<open>0712345678\<close>
  where the specification's normalizer gives \<open>+255712345678\<close>. And it tests the
  regular expression on the trimmed entry, without removing inner spaces, hyphens or
  parentheses first: the entry \<open>0712-345-678\<close> normalizes (to \<open>+255712345678\<close>) and is
  dropped all the same. For the input \<open>0712345678,0712-345-678\<close> the specification keeps
  two normalized numbers and the service stores the one entry \<open>0712345678\<close>.
\<close>

theorem members_not_normalized:
  "map_option memberPhones
     (snd (processUSSDRequest workingBillService (sampleRequest (js ''0712345678,0712-345-678''))
             (run (take 2 sampleDialogue) Map.empty)) (js ''ATUid_1''))
     = Some [js ''0712345678''] \<and>
   spec_memberPhones (js ''0712345678,0712-345-678'') = [js ''+255712345678'', js ''+255712345678''] \<and>
   spec_normalize (js ''0712345678'') = Some (js ''+255712345678'') \<and>
   js ''0712345678'' \<noteq> js ''+255712345678'' \<and>
   spec_normalize (js ''0712-345-678'') = Some (js ''+255712345678'') \<and>
   \<not> isValidPhoneNumber (trim (js ''0712-345-678''))"
  using members_step_store [of "[js ''ATUid_1'' \<mapsto> sampleState Members []]"
      "sampleRequest (js ''0712345678,0712-345-678'')" workingBillService]
  by (simp add: sample_store2 sampleRequest_simps not_blank_two_members valid_of_two_members getState_def
      sampleState_def spec_two_members spec_normalize_plain spec_normalize_hyphens hyphens_not_valid
      member_neq)

text \<open>
  Claim C3, amended. When a request moves a session from the members step to the
  confirmation step, the stored \<open>memberPhones\<close> are the entries of the comma-separated
  input, trimmed at both ends, that match the pattern \<open>/^(\+255|0)?[67]\d{8}$/\<close> as
  they are (inner spaces, hyphens and parentheses are not removed before the test), each
  as it was typed (not converted to the international form), in their original order;
  there is at least one, entries that do not match are dropped, and the other fields of
  the session are unchanged.
\<close>

theorem members_stored:
  assumes "step (getState store request) = Members"
    and "snd (processUSSDRequest createBill request store) (sessionId request) = Some st'"
    and "step st' = Confirm"
  shows "memberPhones st' = filter isValidPhoneNumber (map trim (split_comma (reqText request))) \<and>
         memberPhones st' \<noteq> [] \<and>
         (\<forall>p \<in> set (memberPhones st'). phoneRegex p) \<and>
         amount st' = amount (getState store request) \<and>
         creatorName st' = creatorName (getState store request) \<and>
         statePhoneNumber st' = statePhoneNumber (getState store request)"
proof -
  have store: "store (sessionId request) = Some (getState store request)"
    using assms(1) by (cases "store (sessionId request)") (simp_all add: getState_def initialState_def)
  have nb: "\<not> blank (reqText request)"
  proof
    assume "blank (reqText request)"
    from members_step_blank [OF assms(1) this, of createBill] assms(2,3) store assms(1)
    show False by simp
  qed
  have ne: "filter isValidPhoneNumber (map trim (split_comma (reqText request))) \<noteq> []"
  proof
    assume "filter isValidPhoneNumber (map trim (split_comma (reqText request))) = []"
    from members_step_none_valid [OF assms(1) nb this, of createBill] assms(2,3) store assms(1)
    show False by simp
  qed
  from members_step_store [OF assms(1) nb ne, of createBill] assms(2)
  have "st' = (getState store request)
               \<lparr>memberPhones := filter isValidPhoneNumber (map trim (split_comma (reqText request))),
                step := Confirm\<rparr>"
    by simp
  with ne show ?thesis
    by (auto simp: isValidPhoneNumber_def)
qed

theorem members_stored_witness:
  "step (getState (run (take 2 sampleDialogue) Map.empty)
          (sampleRequest (js ''0712345678, notanumber,0712-345-678, +255698765432 ''))) = Members \<and>
   snd (processUSSDRequest workingBillService
          (sampleRequest (js ''0712345678, notanumber,0712-345-678, +255698765432 ''))
          (run (take 2 sampleDialogue) Map.empty))
     (sessionId (sampleRequest (js ''0712345678, notanumber,0712-345-678, +255698765432 ''))) =
     Some (sampleState Confirm [js ''0712345678'', js ''+255698765432'']) \<and>
   step (sampleState Confirm [js ''0712345678'', js ''+255698765432'']) = Confirm \<and>
   memberPhones (sampleState Confirm [js ''0712345678'', js ''+255698765432'']) =
     filter isValidPhoneNumber
       (map trim (split_comma (reqText (sampleRequest (js ''0712345678, notanumber,0712-345-678, +255698765432 ''))))) \<and>
   filter isValidPhoneNumber
       (map trim (split_comma (reqText (sampleRequest (js ''0712345678, notanumber,0712-345-678, +255698765432 ''))))) =
     [js ''0712345678'', js ''+255698765432'']"
proof -
  have a: "step (getState (run (take 2 sampleDialogue) Map.empty)
          (sampleRequest (js ''0712345678, notanumber,0712-345-678, +255698765432 ''))) = Members"
    by (simp add: sample_store2 getState_def sampleRequest_simps sampleState_def)
  have b: "snd (processUSSDRequest workingBillService
          (sampleRequest (js ''0712345678, notanumber,0712-345-678, +255698765432 ''))
          (run (take 2 sampleDialogue) Map.empty))
     (sessionId (sampleRequest (js ''0712345678, notanumber,0712-345-678, +255698765432 ''))) =
     Some (sampleState Confirm [js ''0712345678'', js ''+255698765432''])"
    using members_step_store [of "[js ''ATUid_1'' \<mapsto> sampleState Members []]"
      "sampleRequest (js ''0712345678, notanumber,0712-345-678, +255698765432 '')" workingBillService]
    by (simp add: sample_store2 sampleRequest_simps not_blank_mixed valid_of_mixed getState_def sampleState_def)
  have c: "step (sampleState Confirm [js ''0712345678'', js ''+255698765432'']) = Confirm"
    by (simp add: sampleState_def)
  show ?thesis
    using a b c members_stored [OF a b c]
    by (simp add: sampleRequest_simps valid_of_mixed)
qed

subsection \<open>Amounts that are rejected\<close>

lemma parse_Infinity: "parseFloat (trim (js ''Infinity'')) = PInf"
  by code_simp

lemma not_blank_Infinity: "\<not> blank (js ''Infinity'')"
  by code_simp

lemma amount_rejected:
  assumes "step (getState store request) = Amount" and "\<not> blank (reqText request)"
    and "parseFloat (reqText request) = NaN \<or> le_zero (parseFloat (reqText request))"
  shows "processUSSDRequest createBill request store =
           (Inr (createResponse (sessionId request)
                   [T ''Invalid amount. Please enter a valid number greater than 0:''] CON),
            store)"
proof -
  have "\<not> gt_zero (parseFloat (trim (reqText request)))"
    using assms(3) by (cases "parseFloat (reqText request)") (auto simp: parseFloat_trim)
  from amount_step_invalid [OF assms(1,2) this] show ?thesis .
qed

text \<open>
  Claim C4. The claim wants every non-blank input that does not parse to a finite number
  above zero rejected at the amount step, inputs parsing to \<open>Infinity\<close> included. The
  handler tests \<open>isNaN(amount) || amount <= 0\<close> only: on the text \<open>Infinity\<close>, sent for
  a new session, the service stores the amount \<open>Infinity\<close>, moves the session to the
  members step and answers with the prompt for the phone numbers.
\<close>

theorem infinite_amount_accepted:
  "processUSSDRequest workingBillService (sampleRequest (js ''Infinity'')) Map.empty =
     (Inr (createResponse (js ''ATUid_1'')
             [T ''Bill amount: '', F2 PInf,
              T '' TZS\<newline>\<newline>Enter phone numbers separated by commas (e.g., 0712345678,0756789012):'']
             CON),
      [js ''ATUid_1'' \<mapsto>
         \<lparr>step = Members, amount = Some PInf, memberPhones = [], creatorName = None,
          statePhoneNumber = Some (js ''+255700000000'')\<rparr>])"
  using amount_step_valid [of Map.empty "sampleRequest (js ''Infinity'')" workingBillService]
  by (simp add: sampleRequest_simps parse_Infinity getState_def initialState_def)

subsection \<open>The three forms of a phone number\<close>

lemma format_local: "formatPhoneNumber (js ''0712345678'') = js ''+255712345678''"
  by code_simp

lemma format_international: "formatPhoneNumber (js ''+255712345678'') = js ''+255712345678''"
  by code_simp

lemma format_bare: "formatPhoneNumber (js ''255712345678'') = js ''+255712345678''"
  by code_simp

lemma validate_local: "validatePhoneNumber (js ''0712345678'')"
  by code_simp

lemma validate_international: "validatePhoneNumber (js ''+255712345678'')"
  by code_simp

lemma validate_bare: "\<not> validatePhoneNumber (js ''255712345678'')"
  by code_simp

text \<open>
  Claim C5, as stated, fails: the bare-country-code form is not accepted. The regular
  expression of \<open>validatePhoneNumber\<close> allows the prefixes \<open>+255\<close> and \<open>0\<close> only, as
  its comment lists them, so the normalizer of the specification (validate, then format)
  has no result on \<open>255712345678\<close>.
\<close>

theorem bare_country_code_rejected:
  "\<not> validatePhoneNumber (js ''255712345678'') \<and>
   spec_normalize (js ''255712345678'') \<noteq> spec_normalize (js ''0712345678'')"
  by (simp add: spec_normalize_def validate_bare validate_local)

text \<open>
  Claim C5, amended. \<open>formatPhoneNumber\<close> maps the local form \<open>0712345678\<close>, the
  international form \<open>+255712345678\<close> and the bare-country-code form \<open>255712345678\<close>
  to the same string \<open>+255712345678\<close>; \<open>validatePhoneNumber\<close> accepts the first two
  forms and rejects the third.
\<close>

theorem normalizer_forms:
  "formatPhoneNumber (js ''0712345678'') = js ''+255712345678'' \<and>
   formatPhoneNumber (js ''+255712345678'') = js ''+255712345678'' \<and>
   formatPhoneNumber (js ''255712345678'') = js ''+255712345678'' \<and>
   validatePhoneNumber (js ''0712345678'') \<and>
   validatePhoneNumber (js ''+255712345678'') \<and>
   \<not> validatePhoneNumber (js ''255712345678'')"
  by (simp add: format_local format_international format_bare validate_local validate_international
      validate_bare)

subsection \<open>Amounts that are accepted\<close>

text \<open>
  Claim C6. At the amount step (a stored session at that step, or a session identifier the
  store does not know), an input that parses to a finite number above zero moves the
  session to the members step, with exactly the parsed number as the stored amount, and the
  response continues the dialogue.
\<close>

theorem amount_accepted:
  assumes "step (getState store request) = Amount"
    and "parseFloat (reqText request) = Fin v" and "0 < v"
  shows "\<exists>response.
           processUSSDRequest createBill request store =
             (Inr response,
              store(sessionId request \<mapsto> (getState store request)\<lparr>amount := Some (Fin v), step := Members\<rparr>)) \<and>
           status response = CON"
proof -
  have "parseFloat (trim (reqText request)) = Fin v"
    using assms(2) by (simp add: parseFloat_trim)
  with amount_step_valid [OF assms(1), of createBill] assms(3) show ?thesis
    by (simp add: createResponse_def)
qed

theorem amount_accepted_witness:
  "step (getState (run (take 1 sampleDialogue) Map.empty) (sampleRequest (js ''5000''))) = Amount \<and>
   parseFloat (reqText (sampleRequest (js ''5000''))) = Fin 5000 \<and> (0::rat) < 5000 \<and>
   (\<exists>response.
      processUSSDRequest workingBillService (sampleRequest (js ''5000'')) (run (take 1 sampleDialogue) Map.empty) =
        (Inr response,
         (run (take 1 sampleDialogue) Map.empty)(sessionId (sampleRequest (js ''5000'')) \<mapsto>
            (getState (run (take 1 sampleDialogue) Map.empty) (sampleRequest (js ''5000'')))
              \<lparr>amount := Some (Fin 5000), step := Members\<rparr>)) \<and>
      status response = CON)"
proof -
  have a: "step (getState (run (take 1 sampleDialogue) Map.empty) (sampleRequest (js ''5000''))) = Amount"
    using sample_store1 by (simp add: getState_def sampleRequest_simps sampleState_def)
  have b: "parseFloat (reqText (sampleRequest (js ''5000''))) = Fin 5000"
    using parse_5000 by (simp add: sampleRequest_simps parseFloat_trim)
  have c: "(0::rat) < 5000" by simp
  show ?thesis
    using a b c amount_accepted [OF a b c, of workingBillService] by blast
qed

subsection \<open>Cancellation\<close>

text \<open>
  Claim C7. At the confirmation step the input \<open>2\<close> removes the session and ends the
  dialogue, whatever amount and members the session holds; after that a request with the
  same session identifier is handled by the amount step on a fresh session (step amount,
  no amount, no members).
\<close>

theorem cancel_removes_session:
  assumes "store (sessionId request) = Some st" and "step st = Confirm"
    and "reqText request = js ''2''"
  shows "\<exists>response.
           processUSSDRequest createBill request store = (Inr response, store(sessionId request := None)) \<and>
           status response = END \<and>
           (\<forall>createBill' request'. sessionId request' = sessionId request \<longrightarrow>
              getState (store(sessionId request := None)) request' = initialState request' \<and>
              step (initialState request') = Amount \<and>
              amount (initialState request') = None \<and>
              memberPhones (initialState request') = [] \<and>
              processUSSDRequest createBill' request' (store(sessionId request := None)) =
                catch_error request'
                  (handleAmountStep request' (initialState request') (store(sessionId request := None))))"
proof -
  have "step (getState store request) = Confirm"
    using assms(1,2) by (simp add: getState_def)
  from confirm_cancel [OF this assms(3), of createBill] show ?thesis
    by (simp add: createResponse_def getState_def initialState_def processUSSDRequest_def)
qed

theorem cancel_removes_session_witness:
  "run sampleDialogue Map.empty (sessionId (sampleRequest (js ''2''))) =
     Some (sampleState Confirm [js ''0712345678'']) \<and>
   step (sampleState Confirm [js ''0712345678'']) = Confirm \<and>
   reqText (sampleRequest (js ''2'')) = js ''2'' \<and>
   (\<exists>response.
      processUSSDRequest failingBillService (sampleRequest (js ''2'')) (run sampleDialogue Map.empty) =
        (Inr response, (run sampleDialogue Map.empty)(js ''ATUid_1'' := None)) \<and>
      status response = END) \<and>
   step (getState ((run sampleDialogue Map.empty)(js ''ATUid_1'' := None)) (sampleRequest (js ''5000''))) = Amount"
proof -
  have a: "run sampleDialogue Map.empty (sessionId (sampleRequest (js ''2''))) =
     Some (sampleState Confirm [js ''0712345678''])"
    by (simp add: sample_store3 sampleRequest_simps)
  have b: "step (sampleState Confirm [js ''0712345678'']) = Confirm"
    by (simp add: sampleState_def)
  have c: "reqText (sampleRequest (js ''2'')) = js ''2''"
    by (simp add: sampleRequest_simps)
  have d: "sessionId (sampleRequest (js ''5000'')) = sessionId (sampleRequest (js ''2''))"
    by (simp add: sampleRequest_simps)
  show ?thesis
    using a b c d
      cancel_removes_session [of "run sampleDialogue Map.empty" "sampleRequest (js ''2'')"
        "sampleState Confirm [js ''0712345678'']" failingBillService]
    by (fastforce simp: sampleRequest_simps)
qed

subsection \<open>The order of the steps\<close>

lemma run_forward:
  assumes "store sid = Some st" and "stays sid es store"
  shows "\<exists>st'. run es store sid = Some st' \<and> rank (step st) \<le> rank (step st')"
  using assms
proof (induction es arbitrary: store st)
  case Nil
  then show ?case by simp
next
  case (Cons e es)
  from Cons.prems(2) obtain st1 where s1: "turn_store e store sid = Some st1"
    and rest: "stays sid es (turn_store e store)"
    by auto
  from turn_session [of store sid st e] Cons.prems(1) s1 have le: "rank (step st) \<le> rank (step st1)"
    by simp
  from Cons.IH [of "turn_store e store" st1] s1 rest obtain st' where "run es (turn_store e store) sid = Some st'"
    and "rank (step st1) \<le> rank (step st')"
    by blast
  with le show ?case
    by auto
qed

text \<open>
  Claim C8. For a session in the store, one request leaves it at the same step or moves it
  one step forward (amount, members, confirmation), or deletes it, which happens at the
  confirmation step only; at the confirmation step the session is deleted or left exactly
  as it was. Over any sequence of requests, as long as the session stays in the store, its
  step is never earlier than where it started.
\<close>

theorem step_only_forward:
  assumes "store sid = Some st"
  shows "(case turn_store e store sid of
            None \<Rightarrow> step st = Confirm
          | Some st' \<Rightarrow>
              rank (step st) \<le> rank (step st') \<and> rank (step st') \<le> Suc (rank (step st)) \<and>
              (step st = Confirm \<longrightarrow> st' = st)) \<and>
         (stays sid es store \<longrightarrow>
            (\<exists>st'. run es store sid = Some st' \<and> rank (step st) \<le> rank (step st')))"
  using assms turn_session [of store sid st e] run_forward [of store sid st es]
  by blast

theorem step_only_forward_witness:
  "[js ''ATUid_1'' \<mapsto> sampleState Amount []] (js ''ATUid_1'') = Some (sampleState Amount []) \<and>
   stays (js ''ATUid_1'') (drop 1 sampleDialogue) [js ''ATUid_1'' \<mapsto> sampleState Amount []] \<and>
   turn_store (workingBillService, sampleRequest (js ''5000'')) [js ''ATUid_1'' \<mapsto> sampleState Amount []]
     (js ''ATUid_1'') = Some (sampleState Members []) \<and>
   rank (step (sampleState Amount [])) \<le> rank (step (sampleState Members [])) \<and>
   (\<exists>st'. run (drop 1 sampleDialogue) [js ''ATUid_1'' \<mapsto> sampleState Amount []] (js ''ATUid_1'') = Some st' \<and>
      rank (step (sampleState Amount [])) \<le> rank (step st'))"
proof -
  have a: "[js ''ATUid_1'' \<mapsto> sampleState Amount []] (js ''ATUid_1'') = Some (sampleState Amount [])"
    by simp
  have b: "stays (js ''ATUid_1'') (drop 1 sampleDialogue) [js ''ATUid_1'' \<mapsto> sampleState Amount []]"
    by (simp add: sampleDialogue_def sample_turn2 sample_turn3)
  have c: "turn_store (workingBillService, sampleRequest (js ''5000'')) [js ''ATUid_1'' \<mapsto> sampleState Amount []]
     (js ''ATUid_1'') = Some (sampleState Members [])"
    by (simp add: sample_turn2)
  show ?thesis
    using a b c
      step_only_forward [of "[js ''ATUid_1'' \<mapsto> sampleState Amount []]" "js ''ATUid_1''"
        "sampleState Amount []" "(workingBillService, sampleRequest (js ''5000''))" "drop 1 sampleDialogue"]
    by simp
qed

subsection \<open>Stored sessions are complete\<close>

lemma complete_initialState: "complete_session (initialState request)"
  by (simp add: complete_session_def initialState_def)

lemma complete_getState:
  assumes "\<forall>sid st. store sid = Some st \<longrightarrow> complete_session st"
  shows "complete_session (getState store request)"
  using assms by (cases "store (sessionId request)") (simp_all add: getState_def complete_initialState)

lemma complete_preserved:
  assumes "\<forall>sid st. store sid = Some st \<longrightarrow> complete_session st"
    and "snd (processUSSDRequest createBill request store) sid = Some st"
  shows "complete_session st"
proof -
  have g: "complete_session (getState store request)"
    using assms(1) by (rule complete_getState)
  show ?thesis
    using store_cases [of createBill request store] assms g
    by (elim disjE conjE exE) (auto simp: complete_session_def split: if_splits)
qed

lemma reachable_complete:
  assumes "reachable store"
  shows "\<forall>sid st. store sid = Some st \<longrightarrow> complete_session st"
  using assms
proof (induction rule: reachable.induct)
  case start
  show ?case by simp
next
  case (request store createBill request)
  then show ?case
    using complete_preserved by blast
next
  case (clear store)
  show ?case by (simp add: clearAllSessions_def)
qed

lemma reachable_run: "reachable store \<Longrightarrow> reachable (run es store)"
  by (induction es arbitrary: store) (auto simp: turn_store_def intro: reachable.request)

lemma members_step_no_throw:
  assumes "amount state \<noteq> None"
  shows "fst (handleMembersStep request state store) \<noteq> Inl e"
  using assms by (auto simp: handleMembersStep_def Let_def)

text \<open>
  Claim C9. In every store the service can reach from the empty one, a session at the
  members or confirmation step has an amount, above zero, and a phone number; so the
  members handler never throws for want of an amount.
\<close>

theorem stored_sessions_complete:
  assumes "reachable store" and "store sid = Some st" and "step st = Members \<or> step st = Confirm"
  shows "(\<exists>a. amount st = Some a \<and> gt_zero a) \<and> statePhoneNumber st \<noteq> None \<and>
         (\<forall>request e. fst (handleMembersStep request st store) \<noteq> Inl e)"
proof -
  from reachable_complete [OF assms(1)] assms(2) have "complete_session st"
    by blast
  with assms(3) have a: "\<exists>a. amount st = Some a \<and> gt_zero a" and p: "statePhoneNumber st \<noteq> None"
    by (auto simp: complete_session_def)
  from a have "amount st \<noteq> None" by auto
  then have "\<forall>request e. fst (handleMembersStep request st store) \<noteq> Inl e"
    using members_step_no_throw by blast
  with a p show ?thesis by blast
qed

theorem stored_sessions_complete_witness:
  "reachable (run (take 2 sampleDialogue) Map.empty) \<and>
   run (take 2 sampleDialogue) Map.empty (js ''ATUid_1'') = Some (sampleState Members []) \<and>
   step (sampleState Members []) = Members \<and>
   amount (sampleState Members []) = Some (Fin 5000) \<and> gt_zero (Fin 5000) \<and>
   statePhoneNumber (sampleState Members []) \<noteq> None"
proof -
  have a: "reachable (run (take 2 sampleDialogue) Map.empty)"
    by (rule reachable_run) (rule reachable.start)
  have b: "run (take 2 sampleDialogue) Map.empty (js ''ATUid_1'') = Some (sampleState Members [])"
    by (simp add: sample_store2)
  have c: "step (sampleState Members []) = Members \<or> step (sampleState Members []) = Confirm"
    by (simp add: sampleState_def)
  show ?thesis
    using a b c
      stored_sessions_complete [of "run (take 2 sampleDialogue) Map.empty" "js ''ATUid_1''"
        "sampleState Members []"]
    by (simp add: sampleState_def)
qed

subsection \<open>Every request is answered\<close>

text \<open>
  Claim C10. \<open>processUSSDRequest\<close> always returns a response: the promise of the
  confirmation handler, which bypasses the \<open>catch\<close> clause, never rejects, and an error
  thrown by the amount or members handler is turned into a response with status \<open>END\<close>
  and the message \<open>An error occurred. Please try again.\<close>
\<close>

theorem processUSSDRequest_total:
  "\<exists>response.
     fst (processUSSDRequest createBill request store) = Inr response \<and>
     ((step (getState store request) = Amount \<and>
         fst (handleAmountStep request (getState store request) store) = Inl e \<or>
       step (getState store request) = Members \<and>
         fst (handleMembersStep request (getState store request) store) = Inl e) \<longrightarrow>
      status response = END \<and> message response = [T ''An error occurred. Please try again.''])"
proof (cases "step (getState store request)")
  case Amount
  then show ?thesis
    using handleAmountStep_Inr [of request "getState store request" store]
    by (auto simp: processUSSDRequest_def catch_error_def)
next
  case Members
  show ?thesis
  proof (cases "fst (handleMembersStep request (getState store request) store)")
    case (Inl e')
    with Members show ?thesis
      by (simp add: processUSSDRequest_def catch_error_def createResponse_def)
  next
    case (Inr response)
    with Members show ?thesis
      by (simp add: processUSSDRequest_def catch_error_def)
  qed
next
  case Confirm
  then show ?thesis
    using handleConfirmStep_Inr [of createBill request "getState store request" store]
    by (simp add: processUSSDRequest_def)
qed

theorem processUSSDRequest_total_witness:
  "step (getState [js ''ATUid_1'' \<mapsto> brokenState] (sampleRequest (js ''0712345678''))) = Members \<and>
   fst (handleMembersStep (sampleRequest (js ''0712345678''))
          (getState [js ''ATUid_1'' \<mapsto> brokenState] (sampleRequest (js ''0712345678'')))
          [js ''ATUid_1'' \<mapsto> brokenState]) = Inl TypeError \<and>
   (\<exists>response.
      fst (processUSSDRequest workingBillService (sampleRequest (js ''0712345678''))
             [js ''ATUid_1'' \<mapsto> brokenState]) = Inr response \<and>
      status response = END \<and> message response = [T ''An error occurred. Please try again.''])"
proof -
  have a: "step (getState [js ''ATUid_1'' \<mapsto> brokenState] (sampleRequest (js ''0712345678''))) = Members"
    by (simp add: getState_def sampleRequest_simps brokenState_def)
  have b: "fst (handleMembersStep (sampleRequest (js ''0712345678''))
          (getState [js ''ATUid_1'' \<mapsto> brokenState] (sampleRequest (js ''0712345678'')))
          [js ''ATUid_1'' \<mapsto> brokenState]) = Inl TypeError"
    by (rule members_step_throw(1) [OF a])
       (simp_all add: sampleRequest_simps not_blank_member valid_member getState_def brokenState_def)
  show ?thesis
    using a b
      processUSSDRequest_total [of workingBillService "sampleRequest (js ''0712345678'')"
        "[js ''ATUid_1'' \<mapsto> brokenState]" TypeError]
    by simp
qed

end
